theory Spec2Isabelle
  imports Main
begin

section \<open>The parsed input, as the generator observes it\<close>

text \<open>
  The generator reads entity classes through the ts-morph API. The model keeps, for
  every node, exactly the observations the program makes of it; what the TypeScript
  compiler answers is input to the model, not part of it.
\<close>

text \<open>A compiler symbol: \<open>getName()\<close> and the kind names of \<open>getDeclarations()\<close>.\<close>

record tsSymbol =
  sym_getName :: string
  sym_declKinds :: "string list"

text \<open>
  A compiler type: \<open>getText()\<close>, \<open>getSymbol()\<close>, \<open>getTypeArguments()\<close>,
  \<open>getArrayElementType()\<close> and \<open>isArray()\<close>.
\<close>

datatype tsType = TsType
  (getText: string)
  (getSymbol: "tsSymbol option")
  (getTypeArguments: "tsType list")
  (getArrayElementType: "tsType option")
  (isArray: bool)

text \<open>A type node: its source text and the type it denotes.\<close>

record tsTypeNode =
  node_getText :: string
  node_getType :: tsType

record propertyDecl =
  prop_getName :: string
  prop_getDecorators :: "string list"
  prop_hasQuestionToken :: bool
  prop_getTypeNode :: "tsTypeNode option"
  prop_getType :: tsType

record classDecl =
  class_getName :: "string option"
  class_getProperties :: "propertyDecl list"

record enumMemberDecl =
  member_getName :: string
  member_getInitializer :: "string option"

record enumDecl =
  enum_getName :: string
  enum_getMembers :: "enumMemberDecl list"

record sourceFile =
  getEnums :: "enumDecl list"
  getClasses :: "classDecl list"

section \<open>The generated structures\<close>

datatype structureKind = PropertySignature | Interface | Enum

record enumMemberStructure =
  em_name :: string
  em_initializer :: "string option"

record enumDeclarationStructure =
  en_kind :: structureKind
  en_name :: string
  en_members :: "enumMemberStructure list"
  en_isExported :: bool

record propertySignatureStructure =
  ps_name :: string
  ps_type :: string
  ps_hasQuestionToken :: bool
  ps_kind :: structureKind

text \<open>
  The name of an interface is what \<open>interfaceMap.get\<close> returned, so it is optional
  in the model (\<open>undefined\<close> in the program).
\<close>

record interfaceDeclarationStructure =
  if_kind :: structureKind
  if_name :: "string option"
  if_properties :: "propertySignatureStructure list"
  if_isExported :: bool

datatype statement =
  EnumStatement enumDeclarationStructure
| InterfaceStatement interfaceDeclarationStructure

section \<open>JavaScript values\<close>

text \<open>A string is truthy unless it is empty.\<close>

definition truthy :: "string \<Rightarrow> bool" where
  "truthy s = (s \<noteq> [])"


text \<open>An optional string inside a template literal.\<close>

definition templateStr :: "string option \<Rightarrow> string" where
  "templateStr so = (case so of None \<Rightarrow> ''undefined'' | Some s \<Rightarrow> s)"

text \<open>
  A JavaScript \<open>Map\<close>: keys are kept in the order of their first insertion, and
  \<open>set\<close> on a key that is present replaces the value where it stands.
\<close>

type_synonym ('k, 'v) jsMap = "('k \<times> 'v) list"

fun mapSet :: "'k \<Rightarrow> 'v \<Rightarrow> ('k, 'v) jsMap \<Rightarrow> ('k, 'v) jsMap" where
  "mapSet k v [] = [(k, v)]"
| "mapSet k v ((k', v') # m) =
     (if k' = k then (k, v) # m else (k', v') # mapSet k v m)"

definition mapGet :: "('k, 'v) jsMap \<Rightarrow> 'k \<Rightarrow> 'v option" where
  "mapGet m k = map_of m k"

definition mapHas :: "('k, 'v) jsMap \<Rightarrow> 'k \<Rightarrow> bool" where
  "mapHas m k = (map_of m k \<noteq> None)"

definition mapValues :: "('k, 'v) jsMap \<Rightarrow> 'v list" where
  "mapValues m = map snd m"

definition mapKeys :: "('k, 'v) jsMap \<Rightarrow> 'k list" where
  "mapKeys m = map fst m"

section \<open>First pass: class names and enums\<close>

text \<open>\<open>usePrefix ? `I${className}` : className\<close>\<close>

definition interfaceNameOf :: "bool \<Rightarrow> string \<Rightarrow> string" where
  "interfaceNameOf usePrefix className =
     (if usePrefix then ''I'' @ className else className)"

definition enumStructureOf :: "enumDecl \<Rightarrow> enumDeclarationStructure" where
  "enumStructureOf e =
     \<lparr> en_kind = Enum,
       en_name = enum_getName e,
       en_members = map (\<lambda>m. \<lparr> em_name = member_getName m,
                                em_initializer = member_getInitializer m \<rparr>)
                        (enum_getMembers e),
       en_isExported = True \<rparr>"

definition collectEnum ::
  "enumDecl \<Rightarrow> (string, enumDeclarationStructure) jsMap
     \<Rightarrow> (string, enumDeclarationStructure) jsMap" where
  "collectEnum e enumMap =
     (if truthy (enum_getName e)
      then mapSet (enum_getName e) (enumStructureOf e) enumMap
      else enumMap)"

definition collectClass ::
  "bool \<Rightarrow> classDecl \<Rightarrow> (string, string) jsMap \<Rightarrow> (string, string) jsMap" where
  "collectClass usePrefix c interfaceMap =
     (case class_getName c of
        None \<Rightarrow> interfaceMap
      | Some className \<Rightarrow>
          if truthy className
          then mapSet className (interfaceNameOf usePrefix className) interfaceMap
          else interfaceMap)"

text \<open>One source file of the first pass: its enums, then its classes.\<close>

definition firstPassFile ::
  "bool \<Rightarrow> sourceFile
     \<Rightarrow> (string, string) jsMap \<times> (string, enumDeclarationStructure) jsMap
     \<Rightarrow> (string, string) jsMap \<times> (string, enumDeclarationStructure) jsMap" where
  "firstPassFile usePrefix sf st =
     (let enumMap = fold collectEnum (getEnums sf) (snd st);
          interfaceMap = fold (collectClass usePrefix) (getClasses sf) (fst st)
      in (interfaceMap, enumMap))"

definition firstPass ::
  "bool \<Rightarrow> sourceFile list
     \<Rightarrow> (string, string) jsMap \<times> (string, enumDeclarationStructure) jsMap" where
  "firstPass usePrefix sourceFiles = fold (firstPassFile usePrefix) sourceFiles ([], [])"

text \<open>
  The order in which the passes visit the input: source files in the order given, and the
  enums and classes of a file in the order of their declaration. The name of a class is
  kept only when the passes do not skip the class.
\<close>

definition allEnumDecls :: "sourceFile list \<Rightarrow> enumDecl list" where
  "allEnumDecls sourceFiles = concat (map getEnums sourceFiles)"

definition classNameOf :: "classDecl \<Rightarrow> string option" where
  "classNameOf c =
     (case class_getName c of
        None \<Rightarrow> None
      | Some className \<Rightarrow> if truthy className then Some className else None)"

definition allClasses :: "sourceFile list \<Rightarrow> classDecl list" where
  "allClasses sourceFiles = concat (map getClasses sourceFiles)"

definition seenClassNames :: "sourceFile list \<Rightarrow> string list" where
  "seenClassNames sourceFiles = List.map_filter classNameOf (allClasses sourceFiles)"

section \<open>Second pass: property types\<close>

text \<open>\<open>s.startsWith(p)\<close>, \<open>s.includes(sub)\<close> and \<open>s.endsWith(suf)\<close> on strings.\<close>

fun startsWith :: "string \<Rightarrow> string \<Rightarrow> bool" where
  "startsWith s [] = True"
| "startsWith [] (p # ps) = False"
| "startsWith (c # cs) (p # ps) = (c = p \<and> startsWith cs ps)"

fun includesStr :: "string \<Rightarrow> string \<Rightarrow> bool" where
  "includesStr [] sub = (sub = [])"
| "includesStr (c # cs) sub = (startsWith (c # cs) sub \<or> includesStr cs sub)"

definition endsWith :: "string \<Rightarrow> string \<Rightarrow> bool" where
  "endsWith s suf = startsWith (rev s) (rev suf)"

definition relationDecorators :: "string list" where
  "relationDecorators = [''OneToMany'', ''ManyToOne'', ''OneToOne'', ''ManyToMany'']"

text \<open>\<open>decorators.some((dec) => relationDecorators.includes(dec))\<close>\<close>

definition hasRelation :: "propertyDecl \<Rightarrow> bool" where
  "hasRelation p = list_ex (\<lambda>dec. dec \<in> set relationDecorators) (prop_getDecorators p)"

text \<open>\<open>t.getSymbol()?.getName()\<close>\<close>

definition symbolNameOf :: "tsType \<Rightarrow> string option" where
  "symbolNameOf t = map_option sym_getName (getSymbol t)"

text \<open>\<open>interfaceMap.get(relatedEntityName) || relatedEntityName\<close>\<close>

definition relatedInterfaceNameOf :: "(string, string) jsMap \<Rightarrow> string \<Rightarrow> string" where
  "relatedInterfaceNameOf interfaceMap relatedEntityName =
     (case mapGet interfaceMap relatedEntityName of
        None \<Rightarrow> relatedEntityName
      | Some v \<Rightarrow> if truthy v then v else relatedEntityName)"

text \<open>
  The type text before the relation handling: \<open>prop.getType().getText()\<close>, replaced by
  the symbol's name when one of the symbol's declarations is an enum declaration (both
  branches of the \<open>enumMap.has\<close> test assign the same name).
\<close>

definition enumPropType ::
  "(string, enumDeclarationStructure) jsMap \<Rightarrow> propertyDecl \<Rightarrow> string" where
  "enumPropType enumMap p =
     (case getSymbol (prop_getType p) of
        None \<Rightarrow> getText (prop_getType p)
      | Some typeSymbol \<Rightarrow>
          if list_ex (\<lambda>k. k = ''EnumDeclaration'') (sym_declKinds typeSymbol)
          then (if mapHas enumMap (sym_getName typeSymbol)
                then sym_getName typeSymbol
                else sym_getName typeSymbol)
          else getText (prop_getType p))"

text \<open>
  Lazy relations. The first argument is the suffix put after the related interface name:
  \<open>''Data''\<close> in the single-file generator, nothing in the file-per-class generator.
  With no type argument the type text is left as it was.
\<close>

definition lazyRelationType ::
  "string \<Rightarrow> (string, string) jsMap \<Rightarrow> tsTypeNode \<Rightarrow> string \<Rightarrow> string" where
  "lazyRelationType suffix interfaceMap propTypeNode propType =
     (case getTypeArguments (node_getType propTypeNode) of
        [] \<Rightarrow> propType
      | relatedType # _ \<Rightarrow>
          (case symbolNameOf relatedType of
             None \<Rightarrow> ''any''
           | Some relatedEntityName \<Rightarrow>
               if truthy relatedEntityName
               then ''Promise<'' @ relatedInterfaceNameOf interfaceMap relatedEntityName
                      @ suffix @ ''>''
               else ''any''))"

text \<open>Eager relations: \<open>type.getArrayElementType() || type\<close> names the related entity.\<close>

definition elementTypeOf :: "tsType \<Rightarrow> tsType" where
  "elementTypeOf type = (case getArrayElementType type of None \<Rightarrow> type | Some e \<Rightarrow> e)"

definition eagerRelationType :: "string \<Rightarrow> (string, string) jsMap \<Rightarrow> tsType \<Rightarrow> string" where
  "eagerRelationType suffix interfaceMap type =
     (let elementType = elementTypeOf type
      in case symbolNameOf elementType of
           None \<Rightarrow> ''any''
         | Some relatedEntityName \<Rightarrow>
             if truthy relatedEntityName
             then (if isArray type
                   then relatedInterfaceNameOf interfaceMap relatedEntityName @ suffix @ ''[]''
                   else relatedInterfaceNameOf interfaceMap relatedEntityName @ suffix)
             else ''any'')"

text \<open>\<open>propTypeNode && propTypeNode.getText().includes('Promise')\<close>\<close>

definition isLazy :: "propertyDecl \<Rightarrow> bool" where
  "isLazy p =
     (case prop_getTypeNode p of
        None \<Rightarrow> False
      | Some propTypeNode \<Rightarrow> includesStr (node_getText propTypeNode) ''Promise'')"

definition relationType ::
  "string \<Rightarrow> (string, string) jsMap \<Rightarrow> propertyDecl \<Rightarrow> string \<Rightarrow> string" where
  "relationType suffix interfaceMap p propType =
     (case prop_getTypeNode p of
        None \<Rightarrow> eagerRelationType suffix interfaceMap (prop_getType p)
      | Some propTypeNode \<Rightarrow>
          if includesStr (node_getText propTypeNode) ''Promise''
          then lazyRelationType suffix interfaceMap propTypeNode propType
          else eagerRelationType suffix interfaceMap (prop_getType p))"

text \<open>The type of the generated property signature, in the single-file generator.\<close>

definition propertyType ::
  "(string, string) jsMap \<Rightarrow> (string, enumDeclarationStructure) jsMap
     \<Rightarrow> propertyDecl \<Rightarrow> string" where
  "propertyType interfaceMap enumMap p =
     (if hasRelation p
      then relationType ''Data'' interfaceMap p (enumPropType enumMap p)
      else enumPropType enumMap p)"

definition propertySignatureOf ::
  "(string, string) jsMap \<Rightarrow> (string, enumDeclarationStructure) jsMap
     \<Rightarrow> propertyDecl \<Rightarrow> propertySignatureStructure" where
  "propertySignatureOf interfaceMap enumMap p =
     \<lparr> ps_name = prop_getName p,
       ps_type = propertyType interfaceMap enumMap p,
       ps_hasQuestionToken = prop_hasQuestionToken p,
       ps_kind = PropertySignature \<rparr>"

section \<open>Second pass: interfaces\<close>

text \<open>
  One step of \<open>properties.forEach\<close>: the signature goes to \<open>interfaceProperties\<close>
  unless the property is a relation, and always to \<open>interfaceDataProperties\<close>.
\<close>

definition pushProperty ::
  "(string, string) jsMap \<Rightarrow> (string, enumDeclarationStructure) jsMap \<Rightarrow> propertyDecl
     \<Rightarrow> propertySignatureStructure list \<times> propertySignatureStructure list
     \<Rightarrow> propertySignatureStructure list \<times> propertySignatureStructure list" where
  "pushProperty interfaceMap enumMap p acc =
     (let propertySignature = propertySignatureOf interfaceMap enumMap p
      in ((if \<not> hasRelation p then fst acc @ [propertySignature] else fst acc),
          snd acc @ [propertySignature]))"

definition classInterfaces ::
  "(string, string) jsMap \<Rightarrow> (string, enumDeclarationStructure) jsMap \<Rightarrow> classDecl
     \<Rightarrow> interfaceDeclarationStructure list" where
  "classInterfaces interfaceMap enumMap c =
     (case class_getName c of
        None \<Rightarrow> []
      | Some className \<Rightarrow>
          if \<not> truthy className then []
          else
            (let interfaceName = mapGet interfaceMap className;
                 interfaceNameData = templateStr interfaceName @ ''Data'';
                 props = fold (pushProperty interfaceMap enumMap) (class_getProperties c) ([], []);
                 entityInterface =
                   \<lparr> if_kind = Interface, if_name = interfaceName,
                     if_properties = fst props, if_isExported = True \<rparr>;
                 entityDataInterface =
                   \<lparr> if_kind = Interface, if_name = Some interfaceNameData,
                     if_properties = snd props, if_isExported = True \<rparr>
             in [entityInterface, entityDataInterface]))"

definition secondPass ::
  "(string, string) jsMap \<Rightarrow> (string, enumDeclarationStructure) jsMap \<Rightarrow> sourceFile list
     \<Rightarrow> interfaceDeclarationStructure list" where
  "secondPass interfaceMap enumMap sourceFiles =
     fold (\<lambda>sf allInterfaces.
             fold (\<lambda>c allInterfaces. allInterfaces @ classInterfaces interfaceMap enumMap c)
                  (getClasses sf) allInterfaces)
          sourceFiles []"

definition allInterfacesOf :: "bool \<Rightarrow> sourceFile list \<Rightarrow> interfaceDeclarationStructure list" where
  "allInterfacesOf usePrefix sourceFiles =
     secondPass (fst (firstPass usePrefix sourceFiles)) (snd (firstPass usePrefix sourceFiles))
       sourceFiles"

definition allEnumsOf :: "bool \<Rightarrow> sourceFile list \<Rightarrow> enumDeclarationStructure list" where
  "allEnumsOf usePrefix sourceFiles = mapValues (snd (firstPass usePrefix sourceFiles))"

text \<open>\<open>statements: [...allEnums, ...allInterfaces]\<close>\<close>

definition statementsOf :: "bool \<Rightarrow> sourceFile list \<Rightarrow> statement list" where
  "statementsOf usePrefix sourceFiles =
     map EnumStatement (allEnumsOf usePrefix sourceFiles)
       @ map InterfaceStatement (allInterfacesOf usePrefix sourceFiles)"

section \<open>The run of the single-file generator\<close>

text \<open>
  The command-line options after parsing, and the collaborators of the run: the path
  functions, the file-system test and the glob expansion \<open>project.addSourceFilesAtPaths\<close>.
  A failing \<open>mkdirSync\<close> or \<open>saveSync\<close> throws and is not modelled.
\<close>

record options =
  opt_input :: string
  opt_output :: string
  opt_prefix :: bool
  opt_verbose :: bool

record environment =
  path_resolve :: "string \<Rightarrow> string"
  path_join :: "string \<Rightarrow> string \<Rightarrow> string"
  path_dirname :: "string \<Rightarrow> string"
  fs_existsSync :: "string \<Rightarrow> bool"
  addSourceFilesAtPaths :: "string \<Rightarrow> sourceFile list"

datatype effect =
  MkdirSync string
| ConsoleError string
| ConsoleLog string
| SaveSync string "statement list"

record outcome =
  out_effects :: "effect list"
  out_exitCode :: nat

definition isSaveSync :: "effect \<Rightarrow> bool" where
  "isSaveSync e = (case e of SaveSync _ _ \<Rightarrow> True | _ \<Rightarrow> False)"

definition runGenerator :: "environment \<Rightarrow> options \<Rightarrow> outcome" where
  "runGenerator env opts =
     (let inputPattern = path_resolve env (opt_input opts);
          resolved = path_resolve env (opt_output opts);
          usePrefix = opt_prefix opts;
          verbose = opt_verbose opts;
          outputFilePath = (if \<not> endsWith resolved ''.ts''
                            then path_join env resolved ''IEntity.ts'' else resolved);
          outputDir = path_dirname env outputFilePath;
          made = (if \<not> fs_existsSync env outputDir then [MkdirSync outputDir] else []);
          sourceFiles = addSourceFilesAtPaths env inputPattern
      in if sourceFiles = []
         then \<lparr> out_effects =
                  made @ [ConsoleError (''No files matched the input pattern: '' @ inputPattern)],
                out_exitCode = 1 \<rparr>
         else \<lparr> out_effects =
                  made @ [SaveSync outputFilePath (statementsOf usePrefix sourceFiles)]
                    @ (if verbose
                       then [ConsoleLog (''Generated interfaces file: '' @ outputFilePath)]
                       else []),
                out_exitCode = 0 \<rparr>)"

section \<open>The file-per-class generator\<close>

text \<open>
  The earlier generator writes one file per class, each holding a single interface whose
  relation properties name the related interface itself (no \<open>Data\<close> suffix, no enum
  handling), and computes the imports of each file from the property types.
\<close>

definition firstPassClasses :: "bool \<Rightarrow> sourceFile list \<Rightarrow> (string, string) jsMap" where
  "firstPassClasses usePrefix sourceFiles =
     fold (\<lambda>sf interfaceMap. fold (collectClass usePrefix) (getClasses sf) interfaceMap)
          sourceFiles []"

definition filePropertyType :: "(string, string) jsMap \<Rightarrow> propertyDecl \<Rightarrow> string" where
  "filePropertyType interfaceMap p =
     (if hasRelation p
      then relationType [] interfaceMap p (getText (prop_getType p))
      else getText (prop_getType p))"

definition filePropertySignatureOf ::
  "(string, string) jsMap \<Rightarrow> propertyDecl \<Rightarrow> propertySignatureStructure" where
  "filePropertySignatureOf interfaceMap p =
     \<lparr> ps_name = prop_getName p,
       ps_type = filePropertyType interfaceMap p,
       ps_hasQuestionToken = prop_hasQuestionToken p,
       ps_kind = PropertySignature \<rparr>"

text \<open>The character class \<open>[A-Za-z0-9_]\<close>.\<close>

definition isWordChar :: "char \<Rightarrow> bool" where
  "isWordChar c =
     (c \<in> set ''ABCDEFGHIJKLMNOPQRSTUVWXYZabcdefghijklmnopqrstuvwxyz0123456789_'')"

text \<open>
  The part of the pattern after the optional \<open>Promise<\<close>: one or more word characters
  (as many as there are), then \<open>[]\<close> if it follows, then \<open>>\<close> if it follows. The result
  is the matched text, or nothing when no word character stands first.
\<close>

definition matchName :: "string \<Rightarrow> string option" where
  "matchName s =
     (let word = takeWhile isWordChar s;
          rest = dropWhile isWordChar s;
          brackets = (if startsWith rest ''[]'' then ''[]'' else []);
          rest' = drop (length brackets) rest;
          closing = (if startsWith rest' ''>'' then ''>'' else [])
      in if word = [] then None else Some (word @ brackets @ closing))"

text \<open>
  A match of \<open>/(?:Promise<)?([A-Za-z0-9_]+)(?:\[\])?>?/\<close> at the start of the string:
  the optional group is tried first and given up when no word character follows it.
\<close>

definition matchTypeNameAt :: "string \<Rightarrow> string option" where
  "matchTypeNameAt s =
     (if startsWith s ''Promise<''
      then (case matchName (drop 8 s) of
              Some m \<Rightarrow> Some (''Promise<'' @ m)
            | None \<Rightarrow> matchName s)
      else matchName s)"

text \<open>
  \<open>propType.match(/.../g) || []\<close>: all matches from left to right, each search starting
  where the previous match ended. The first argument counts the characters of the previous
  match that are still to be passed over.
\<close>

fun matchTypeNames :: "nat \<Rightarrow> string \<Rightarrow> string list" where
  "matchTypeNames k [] = []"
| "matchTypeNames (Suc k) (c # cs) = matchTypeNames k cs"
| "matchTypeNames 0 (c # cs) =
     (case matchTypeNameAt (c # cs) of
        Some m \<Rightarrow> m # matchTypeNames (length m - 1) cs
      | None \<Rightarrow> matchTypeNames 0 cs)"

text \<open>
  \<open>typeName.replace(/(\[\])|Promise<|>/g, '')\<close>: every occurrence of \<open>[]\<close>,
  \<open>Promise<\<close> and \<open>>\<close> is removed, scanning from the left.
\<close>

fun cleanTypeFrom :: "nat \<Rightarrow> string \<Rightarrow> string" where
  "cleanTypeFrom k [] = []"
| "cleanTypeFrom (Suc k) (c # cs) = cleanTypeFrom k cs"
| "cleanTypeFrom 0 (c # cs) =
     (if startsWith (c # cs) ''[]'' then cleanTypeFrom 1 cs
      else if startsWith (c # cs) ''Promise<'' then cleanTypeFrom 7 cs
      else if startsWith (c # cs) ''>'' then cleanTypeFrom 0 cs
      else c # cleanTypeFrom 0 cs)"

definition cleanTypeOf :: "string \<Rightarrow> string" where
  "cleanTypeOf typeName = cleanTypeFrom 0 typeName"

text \<open>A JavaScript \<open>Set\<close> of strings, in insertion order.\<close>

definition setAdd :: "string \<Rightarrow> string list \<Rightarrow> string list" where
  "setAdd x xs = (if x \<in> set xs then xs else xs @ [x])"

text \<open>
  The imports of one generated file: a clean type name is imported when
  \<open>interfaceMap.has(cleanType) && cleanType !== interfaceName\<close>.
\<close>

definition addTypeImports ::
  "(string, string) jsMap \<Rightarrow> string option \<Rightarrow> string \<Rightarrow> string list \<Rightarrow> string list" where
  "addTypeImports interfaceMap interfaceName propType imports =
     fold (\<lambda>typeName imports.
             (let cleanType = cleanTypeOf typeName
              in if mapHas interfaceMap cleanType \<and> Some cleanType \<noteq> interfaceName
                 then setAdd cleanType imports else imports))
          (matchTypeNames 0 propType) imports"

definition importsOf ::
  "(string, string) jsMap \<Rightarrow> string option \<Rightarrow> propertySignatureStructure list
     \<Rightarrow> string list" where
  "importsOf interfaceMap interfaceName interfaceProperties =
     fold (\<lambda>prop imports. addTypeImports interfaceMap interfaceName (ps_type prop) imports)
          interfaceProperties []"

text \<open>
  The file generated for one class: its interface and the names it imports (each name
  \<open>n\<close> becomes a type-only import of \<open>n\<close> from \<open>./n\<close>).
\<close>

record generatedFile =
  gf_interface :: interfaceDeclarationStructure
  gf_imports :: "string list"

definition classFile :: "(string, string) jsMap \<Rightarrow> classDecl \<Rightarrow> generatedFile list" where
  "classFile interfaceMap c =
     (case class_getName c of
        None \<Rightarrow> []
      | Some className \<Rightarrow>
          if \<not> truthy className then []
          else
            (let interfaceName = mapGet interfaceMap className;
                 interfaceProperties =
                   map (filePropertySignatureOf interfaceMap) (class_getProperties c)
             in [\<lparr> gf_interface =
                      \<lparr> if_kind = Interface, if_name = interfaceName,
                        if_properties = interfaceProperties, if_isExported = True \<rparr>,
                    gf_imports = importsOf interfaceMap interfaceName interfaceProperties \<rparr>]))"

definition generatedFilesOf :: "bool \<Rightarrow> sourceFile list \<Rightarrow> generatedFile list" where
  "generatedFilesOf usePrefix sourceFiles =
     fold (\<lambda>sf files.
             fold (\<lambda>c files. files @ classFile (firstPassClasses usePrefix sourceFiles) c)
                  (getClasses sf) files)
          sourceFiles []"

section \<open>Example entities\<close>

text \<open>
  What the compiler reports for a class type, a primitive type, an enum type and a class
  type declared in another module (both printed with the module), \<open>Promise<T>\<close> and
  \<open>T[]\<close>.
\<close>

definition classType :: "string \<Rightarrow> tsType" where
  "classType n =
     TsType n (Some \<lparr> sym_getName = n, sym_declKinds = [''ClassDeclaration''] \<rparr>) [] None False"

definition primitiveType :: "string \<Rightarrow> tsType" where
  "primitiveType n = TsType n None [] None False"

definition importedEnumType :: "string \<Rightarrow> string \<Rightarrow> tsType" where
  "importedEnumType module n =
     TsType (''import(\"'' @ module @ ''\").'' @ n)
       (Some \<lparr> sym_getName = n, sym_declKinds = [''EnumDeclaration''] \<rparr>) [] None False"

definition moduleClassType :: "string \<Rightarrow> string \<Rightarrow> tsType" where
  "moduleClassType module n =
     TsType (''import(\"'' @ module @ ''\").'' @ n)
       (Some \<lparr> sym_getName = n, sym_declKinds = [''ClassDeclaration''] \<rparr>) [] None False"

definition promiseType :: "tsType \<Rightarrow> tsType" where
  "promiseType t =
     TsType (''Promise<'' @ getText t @ ''>'')
       (Some \<lparr> sym_getName = ''Promise'', sym_declKinds = [''InterfaceDeclaration''] \<rparr>)
       [t] None False"

definition arrayType :: "tsType \<Rightarrow> tsType" where
  "arrayType t =
     TsType (getText t @ ''[]'')
       (Some \<lparr> sym_getName = ''Array'', sym_declKinds = [''InterfaceDeclaration''] \<rparr>)
       [t] (Some t) True"

text \<open>A property declared as \<open>@dec name: t\<close>, its type node carrying the text of \<open>t\<close>.\<close>

definition property :: "string list \<Rightarrow> string \<Rightarrow> tsType \<Rightarrow> propertyDecl" where
  "property decs n t =
     \<lparr> prop_getName = n, prop_getDecorators = decs, prop_hasQuestionToken = False,
       prop_getTypeNode = Some \<lparr> node_getText = getText t, node_getType = t \<rparr>,
       prop_getType = t \<rparr>"

text \<open>
  The same with the text of the type node given apart: the node reads as the source does,
  while the type is what the compiler made of it (an enum of another module is printed with
  its module; a name whose import failed has the type \<open>any\<close>).
\<close>

definition propertyAs :: "string list \<Rightarrow> string \<Rightarrow> string \<Rightarrow> tsType \<Rightarrow> propertyDecl" where
  "propertyAs decs n nodeText t =
     \<lparr> prop_getName = n, prop_getDecorators = decs, prop_hasQuestionToken = False,
       prop_getTypeNode = Some \<lparr> node_getText = nodeText, node_getType = t \<rparr>,
       prop_getType = t \<rparr>"

definition profileProperty :: propertyDecl where
  "profileProperty = property [''ManyToOne''] ''profile'' (classType ''Profile'')"

definition membersProperty :: propertyDecl where
  "membersProperty = property [''OneToMany''] ''members'' (arrayType (classType ''Employee''))"

definition customerProperty :: propertyDecl where
  "customerProperty =
     property [''ManyToOne''] ''customer'' (promiseType (classType ''Customer''))"


definition unresolvedMembersProperty :: propertyDecl where
  "unresolvedMembersProperty =
     propertyAs [''OneToMany''] ''members'' ''Employee[]'' (arrayType (primitiveType ''any''))"


definition statusProperty :: propertyDecl where
  "statusProperty =
     propertyAs [''Column''] ''status'' ''Status'' (importedEnumType ''/src/status'' ''Status'')"

text \<open>
  \<open>@Column status: enums.Status\<close>, the enum reached through a namespace import, and
  \<open>@Column owner: User\<close>, the class \<open>User\<close> imported from another module.
\<close>

definition qualifiedStatusProperty :: propertyDecl where
  "qualifiedStatusProperty =
     propertyAs [''Column''] ''status'' ''enums.Status''
       (importedEnumType ''/src/enums'' ''Status'')"

definition ownerProperty :: propertyDecl where
  "ownerProperty =
     propertyAs [''Column''] ''owner'' ''User'' (moduleClassType ''/src/user'' ''User'')"

text \<open>
  \<open>class User { id: number; @ManyToOne profile: Profile }\<close> and \<open>class Profile {}\<close>
\<close>

definition userClass :: classDecl where
  "userClass =
     \<lparr> class_getName = Some ''User'',
       class_getProperties =
         [property [''PrimaryGeneratedColumn''] ''id'' (primitiveType ''number''),
          profileProperty] \<rparr>"

definition profileClass :: classDecl where
  "profileClass = \<lparr> class_getName = Some ''Profile'', class_getProperties = [] \<rparr>"

text \<open>\<open>class Team { @OneToMany members: Employee[] }\<close>\<close>

definition teamClass :: classDecl where
  "teamClass =
     \<lparr> class_getName = Some ''Team'',
       class_getProperties = [membersProperty] \<rparr>"

definition employeeClass :: classDecl where
  "employeeClass = \<lparr> class_getName = Some ''Employee'', class_getProperties = [] \<rparr>"

text \<open>\<open>class Order { @ManyToOne customer: Promise<Customer> }\<close> and \<open>class Customer {}\<close>\<close>

definition orderClass :: classDecl where
  "orderClass =
     \<lparr> class_getName = Some ''Order'',
       class_getProperties = [customerProperty] \<rparr>"

definition customerClass :: classDecl where
  "customerClass = \<lparr> class_getName = Some ''Customer'', class_getProperties = [] \<rparr>"

text \<open>A class the compiler gives no name.\<close>

definition anonymousClass :: classDecl where
  "anonymousClass =
     \<lparr> class_getName = None,
       class_getProperties = [property [] ''id'' (primitiveType ''number'')] \<rparr>"

text \<open>A second class named \<open>Order\<close>, in another file.\<close>

definition archivedOrderClass :: classDecl where
  "archivedOrderClass =
     \<lparr> class_getName = Some ''Order'',
       class_getProperties = [property [] ''archivedAt'' (primitiveType ''Date'')] \<rparr>"

text \<open>
  \<open>enum Status { Open = 'open', Closed = 'closed' }\<close> and \<open>enum Role { Admin }\<close> in one
  file, and another \<open>enum Status { Unknown }\<close> in a later file.
\<close>

definition statusEnum :: enumDecl where
  "statusEnum =
     \<lparr> enum_getName = ''Status'',
       enum_getMembers =
         [\<lparr> member_getName = ''Open'', member_getInitializer = Some ''\"open\"'' \<rparr>,
          \<lparr> member_getName = ''Closed'', member_getInitializer = Some ''\"closed\"'' \<rparr>] \<rparr>"

definition roleEnum :: enumDecl where
  "roleEnum =
     \<lparr> enum_getName = ''Role'',
       enum_getMembers = [\<lparr> member_getName = ''Admin'', member_getInitializer = None \<rparr>] \<rparr>"

definition otherStatusEnum :: enumDecl where
  "otherStatusEnum =
     \<lparr> enum_getName = ''Status'',
       enum_getMembers = [\<lparr> member_getName = ''Unknown'', member_getInitializer = None \<rparr>] \<rparr>"

definition usersFile :: sourceFile where
  "usersFile = \<lparr> getEnums = [statusEnum, roleEnum], getClasses = [userClass, profileClass] \<rparr>"

definition teamsFile :: sourceFile where
  "teamsFile = \<lparr> getEnums = [otherStatusEnum], getClasses = [teamClass, employeeClass] \<rparr>"

text \<open>\<open>class Ticket { @Column status: enums.Status; @Column owner: User }\<close>\<close>

definition ticketClass :: classDecl where
  "ticketClass =
     \<lparr> class_getName = Some ''Ticket'',
       class_getProperties = [qualifiedStatusProperty, ownerProperty] \<rparr>"

definition ticketsFile :: sourceFile where
  "ticketsFile = \<lparr> getEnums = [], getClasses = [ticketClass] \<rparr>"



definition teamOnlyFile :: sourceFile where
  "teamOnlyFile = \<lparr> getEnums = [], getClasses = [teamClass] \<rparr>"

definition archiveFile :: sourceFile where
  "archiveFile = \<lparr> getEnums = [], getClasses = [archivedOrderClass] \<rparr>"

text \<open>An environment whose glob matches no file, and the options of a run.\<close>

definition emptyEnvironment :: environment where
  "emptyEnvironment =
     \<lparr> path_resolve = (\<lambda>p. ''/work/'' @ p),
       path_join = (\<lambda>a b. a @ ''/'' @ b),
       path_dirname = (\<lambda>p. ''/work/out''),
       fs_existsSync = (\<lambda>p. False),
       addSourceFilesAtPaths = (\<lambda>p. []) \<rparr>"

definition defaultOptions :: options where
  "defaultOptions =
     \<lparr> opt_input = ''entities/*.ts'', opt_output = ''out'',
       opt_prefix = True, opt_verbose = True \<rparr>"

definition ordersFile :: sourceFile where
  "ordersFile = \<lparr> getEnums = [], getClasses = [orderClass, anonymousClass, customerClass] \<rparr>"

section \<open>The symbol table\<close>

lemma map_of_mapSet: "map_of (mapSet k v m) k' = (if k' = k then Some v else map_of m k')"
  by (induction m) auto

lemma keys_mapSet:
  "map fst (mapSet k v m) = (if k \<in> fst ` set m then map fst m else map fst m @ [k])"
  by (induction m) force+

lemma set_keys_mapSet: "fst ` set (mapSet k v m) = insert k (fst ` set m)"
proof -
  have "set (map fst (mapSet k v m)) = insert k (set (map fst m))"
    unfolding keys_mapSet by auto
  then show ?thesis by simp
qed

lemma distinct_keys_mapSet: "distinct (map fst m) \<Longrightarrow> distinct (map fst (mapSet k v m))"
  unfolding keys_mapSet by auto

lemma fold_firstPassFile:
  "fold (firstPassFile up) sfs st =
     (fold (collectClass up) (concat (map getClasses sfs)) (fst st),
      fold collectEnum (concat (map getEnums sfs)) (snd st))"
  by (induction sfs arbitrary: st) (simp_all add: firstPassFile_def Let_def)

lemma fst_firstPass: "fst (firstPass up sfs) = fold (collectClass up) (allClasses sfs) []"
  by (simp add: firstPass_def fold_firstPassFile allClasses_def)

lemma snd_firstPass: "snd (firstPass up sfs) = fold collectEnum (allEnumDecls sfs) []"
  by (simp add: firstPass_def fold_firstPassFile allEnumDecls_def)

lemma firstPassClasses_eq: "firstPassClasses up sfs = fold (collectClass up) (allClasses sfs) []"
proof -
  have "fold (\<lambda>sf m. fold (collectClass up) (getClasses sf) m) sfs m0
          = fold (collectClass up) (concat (map getClasses sfs)) m0" for m0
    by (induction sfs arbitrary: m0) simp_all
  then show ?thesis by (simp add: firstPassClasses_def allClasses_def)
qed

lemma collectClass_cases:
  "collectClass up c m =
     (case classNameOf c of None \<Rightarrow> m | Some n \<Rightarrow> mapSet n (interfaceNameOf up n) m)"
  by (simp add: collectClass_def classNameOf_def split: option.splits)

lemma keys_fold_collectClass:
  "fst ` set (fold (collectClass up) cs m) = fst ` set m \<union> set (List.map_filter classNameOf cs)"
proof (induction cs arbitrary: m)
  case Nil
  then show ?case by simp
next
  case (Cons c cs)
  then show ?case
    by (cases "classNameOf c")
       (auto simp: collectClass_cases set_keys_mapSet)
qed

lemma distinct_fold_collectClass:
  "distinct (map fst m) \<Longrightarrow> distinct (map fst (fold (collectClass up) cs m))"
proof (induction cs arbitrary: m)
  case Nil
  then show ?case by simp
next
  case (Cons c cs)
  then show ?case
    by (cases "classNameOf c") (simp_all add: collectClass_cases distinct_keys_mapSet)
qed

lemma values_fold_collectClass:
  assumes "\<And>k v. map_of m k = Some v \<Longrightarrow> v = interfaceNameOf up k"
    and "map_of (fold (collectClass up) cs m) k = Some v"
  shows "v = interfaceNameOf up k"
  using assms
proof (induction cs arbitrary: m)
  case Nil
  then show ?case by simp
next
  case (Cons c cs)
  have step: "v = interfaceNameOf up k" if "map_of (collectClass up c m) k = Some v" for k v
    using that Cons.prems(1)
    by (cases "classNameOf c") (auto simp: collectClass_cases map_of_mapSet split: if_splits)
  from Cons.prems(2) have "map_of (fold (collectClass up) cs (collectClass up c m)) k = Some v"
    by simp
  with step show ?case by (rule Cons.IH)
qed

lemma interfaceNameOf_inject: "interfaceNameOf up a = interfaceNameOf up b \<Longrightarrow> a = b"
  by (simp add: interfaceNameOf_def split: if_splits)

lemma mapGet_firstPass:
  "mapGet (fst (firstPass up sfs)) n =
     (if n \<in> set (seenClassNames sfs) then Some (interfaceNameOf up n) else None)"
proof -
  let ?m = "fold (collectClass up) (allClasses sfs) []"
  have keys: "fst ` set ?m = set (seenClassNames sfs)"
    by (simp add: keys_fold_collectClass seenClassNames_def)
  show ?thesis
  proof (cases "n \<in> set (seenClassNames sfs)")
    case True
    then have "n \<in> fst ` set ?m" using keys by simp
    then obtain v where v: "map_of ?m n = Some v"
      by (metis domIff dom_map_of_conv_image_fst not_Some_eq)
    have "v = interfaceNameOf up n"
      by (rule values_fold_collectClass [OF _ v]) simp
    with v True show ?thesis by (simp add: mapGet_def fst_firstPass)
  next
    case False
    then have "n \<notin> fst ` set ?m" using keys by simp
    then have "map_of ?m n = None" by (simp add: map_of_eq_None_iff)
    with False show ?thesis by (simp add: mapGet_def fst_firstPass)
  qed
qed

section \<open>The shape of the second pass\<close>

lemma fold_pushProperty:
  "fold (pushProperty im em) ps acc =
     (fst acc @ map (propertySignatureOf im em) (filter (\<lambda>p. \<not> hasRelation p) ps),
      snd acc @ map (propertySignatureOf im em) ps)"
  by (induction ps arbitrary: acc) (simp_all add: pushProperty_def Let_def)

lemma secondPass_concat:
  "secondPass im em sfs = concat (map (classInterfaces im em) (allClasses sfs))"
proof -
  have inner: "fold (\<lambda>c acc. acc @ classInterfaces im em c) cs acc
                 = acc @ concat (map (classInterfaces im em) cs)" for cs acc
    by (induction cs arbitrary: acc) simp_all
  have "fold (\<lambda>sf acc. fold (\<lambda>c acc. acc @ classInterfaces im em c) (getClasses sf) acc) sfs acc
          = acc @ concat (map (classInterfaces im em) (concat (map getClasses sfs)))" for acc
    by (induction sfs arbitrary: acc) (simp_all add: inner)
  then show ?thesis by (simp add: secondPass_def allClasses_def)
qed

lemma classInterfaces_named:
  assumes "classNameOf c = Some n" and "mapGet im n = Some s"
  shows "classInterfaces im em c =
     [\<lparr> if_kind = Interface, if_name = Some s,
        if_properties = map (propertySignatureOf im em)
                          (filter (\<lambda>p. \<not> hasRelation p) (class_getProperties c)),
        if_isExported = True \<rparr>,
      \<lparr> if_kind = Interface, if_name = Some (s @ ''Data''),
        if_properties = map (propertySignatureOf im em) (class_getProperties c),
        if_isExported = True \<rparr>]"
  using assms
  by (auto simp: classInterfaces_def classNameOf_def fold_pushProperty templateStr_def Let_def
           split: option.splits if_splits)

lemma classInterfaces_unnamed: "classNameOf c = None \<Longrightarrow> classInterfaces im em c = []"
  by (auto simp: classInterfaces_def classNameOf_def split: option.splits if_splits)

lemma classNameOf_seen:
  "c \<in> set (allClasses sfs) \<Longrightarrow> classNameOf c = Some n \<Longrightarrow> n \<in> set (seenClassNames sfs)"
  by (force simp: seenClassNames_def List.map_filter_def)

lemma allInterfacesOf_classes:
  "allInterfacesOf up sfs =
     concat (map (\<lambda>c. case classNameOf c of
                         None \<Rightarrow> []
                       | Some n \<Rightarrow>
                           [\<lparr> if_kind = Interface, if_name = Some (interfaceNameOf up n),
                              if_properties =
                                map (propertySignatureOf (fst (firstPass up sfs)) (snd (firstPass up sfs)))
                                    (filter (\<lambda>p. \<not> hasRelation p) (class_getProperties c)),
                              if_isExported = True \<rparr>,
                            \<lparr> if_kind = Interface, if_name = Some (interfaceNameOf up n @ ''Data''),
                              if_properties =
                                map (propertySignatureOf (fst (firstPass up sfs)) (snd (firstPass up sfs)))
                                    (class_getProperties c),
                              if_isExported = True \<rparr>])
                 (allClasses sfs))"
proof -
  have "classInterfaces (fst (firstPass up sfs)) (snd (firstPass up sfs)) c =
          (case classNameOf c of
             None \<Rightarrow> []
           | Some n \<Rightarrow>
               [\<lparr> if_kind = Interface, if_name = Some (interfaceNameOf up n),
                  if_properties =
                    map (propertySignatureOf (fst (firstPass up sfs)) (snd (firstPass up sfs)))
                        (filter (\<lambda>p. \<not> hasRelation p) (class_getProperties c)),
                  if_isExported = True \<rparr>,
                \<lparr> if_kind = Interface, if_name = Some (interfaceNameOf up n @ ''Data''),
                  if_properties =
                    map (propertySignatureOf (fst (firstPass up sfs)) (snd (firstPass up sfs)))
                        (class_getProperties c),
                  if_isExported = True \<rparr>])"
    if "c \<in> set (allClasses sfs)" for c
  proof (cases "classNameOf c")
    case None
    then show ?thesis by (simp add: classInterfaces_unnamed)
  next
    case (Some n)
    with that have "mapGet (fst (firstPass up sfs)) n = Some (interfaceNameOf up n)"
      by (simp add: mapGet_firstPass classNameOf_seen)
    with Some show ?thesis by (simp add: classInterfaces_named)
  qed
  then show ?thesis
    unfolding allInterfacesOf_def secondPass_concat by (intro arg_cong [where f = concat] map_cong) simp_all
qed

lemma interface_names:
  "map if_name (allInterfacesOf up sfs) =
     concat (map (\<lambda>n. [Some (interfaceNameOf up n), Some (interfaceNameOf up n @ ''Data'')])
                 (seenClassNames sfs))"
proof -
  have "map if_name
          (concat (map (\<lambda>c. case classNameOf c of
                         None \<Rightarrow> []
                       | Some n \<Rightarrow>
                           [\<lparr> if_kind = Interface, if_name = Some (interfaceNameOf up n),
                              if_properties = map (propertySignatureOf im em)
                                    (filter (\<lambda>p. \<not> hasRelation p) (class_getProperties c)),
                              if_isExported = True \<rparr>,
                            \<lparr> if_kind = Interface, if_name = Some (interfaceNameOf up n @ ''Data''),
                              if_properties = map (propertySignatureOf im em) (class_getProperties c),
                              if_isExported = True \<rparr>]) cs))
          = concat (map (\<lambda>n. [Some (interfaceNameOf up n), Some (interfaceNameOf up n @ ''Data'')])
                        (List.map_filter classNameOf cs))"
    for cs :: "classDecl list" and im em
    by (induction cs) (auto split: option.splits)
  then show ?thesis
    unfolding allInterfacesOf_classes seenClassNames_def by simp
qed

lemma count_interface_names:
  "count_list (concat (map (\<lambda>n. [Some (interfaceNameOf up n), Some (interfaceNameOf up n @ ''Data'')]) ns))
              (Some (interfaceNameOf up n)) \<ge> count_list ns n"
  by (induction ns) auto

lemma count_interface_data_names:
  "count_list (concat (map (\<lambda>n. [Some (interfaceNameOf up n), Some (interfaceNameOf up n @ ''Data'')]) ns))
              (Some (interfaceNameOf up n @ ''Data'')) \<ge> count_list ns n"
  by (induction ns) auto

lemma collectEnum_truthy:
  "truthy (enum_getName e) \<Longrightarrow> collectEnum e m = mapSet (enum_getName e) (enumStructureOf e) m"
  by (simp add: collectEnum_def)

lemma collectEnum_falsy: "\<not> truthy (enum_getName e) \<Longrightarrow> collectEnum e m = m"
  by (simp add: collectEnum_def)

lemma keys_fold_collectEnum:
  "distinct (map fst m) \<Longrightarrow>
   map fst (fold collectEnum es m) =
     rev (remdups (rev (map fst m @ filter truthy (map enum_getName es))))"
proof (induction es arbitrary: m rule: rev_induct)
  case Nil
  then show ?case by (simp add: distinct_remdups_id)
next
  case (snoc e es)
  let ?M = "fold collectEnum es m"
  let ?L = "map fst m @ filter truthy (map enum_getName es)"
  have IH: "map fst ?M = rev (remdups (rev ?L))" using snoc by simp
  then have keys: "fst ` set ?M = set ?L"
    by (metis list.set_map set_remdups set_rev)
  show ?case
  proof (cases "truthy (enum_getName e)")
    case False
    with IH show ?thesis by (simp add: collectEnum_falsy)
  next
    case True
    have "map fst (mapSet (enum_getName e) (enumStructureOf e) ?M) =
            (if enum_getName e \<in> set ?L then rev (remdups (rev ?L))
             else rev (remdups (rev ?L)) @ [enum_getName e])"
      unfolding keys_mapSet keys IH by simp
    also have "\<dots> = rev (remdups (enum_getName e # rev ?L))"
      by simp
    finally show ?thesis using True by (simp add: collectEnum_truthy)
  qed
qed

lemma mapSet_names:
  "\<forall>kv \<in> set m. en_name (snd kv) = fst kv \<Longrightarrow> en_name v = k \<Longrightarrow>
   \<forall>kv \<in> set (mapSet k v m). en_name (snd kv) = fst kv"
  by (induction m) (force split: if_splits)+

lemma fold_collectEnum_names:
  "\<forall>kv \<in> set m. en_name (snd kv) = fst kv \<Longrightarrow>
   \<forall>kv \<in> set (fold collectEnum es m). en_name (snd kv) = fst kv"
proof (induction es arbitrary: m)
  case Nil
  then show ?case by simp
next
  case (Cons e es)
  have "\<forall>kv \<in> set (collectEnum e m). en_name (snd kv) = fst kv"
  proof (cases "truthy (enum_getName e)")
    case True
    then show ?thesis
      using mapSet_names [OF Cons.prems, of "enumStructureOf e" "enum_getName e"]
      by (simp add: collectEnum_truthy enumStructureOf_def)
  next
    case False
    then show ?thesis using Cons.prems by (simp add: collectEnum_falsy)
  qed
  then show ?case using Cons.IH by simp
qed

lemma enum_names:
  "map en_name (allEnumsOf up sfs) =
     rev (remdups (rev (filter truthy (map enum_getName (allEnumDecls sfs)))))"
proof -
  have "map en_name (map snd (fold collectEnum (allEnumDecls sfs) []))
          = map fst (fold collectEnum (allEnumDecls sfs) [])"
    using fold_collectEnum_names [of "[]" "allEnumDecls sfs"] by simp
  then show ?thesis
    using keys_fold_collectEnum [of "[]" "allEnumDecls sfs"]
    by (simp add: allEnumsOf_def mapValues_def snd_firstPass)
qed

section \<open>Claims about the symbol table\<close>

text \<open>
  Claim C6. The symbol table built by the first pass has exactly the names of the named
  classes as its keys, each once; every such name is mapped to \<open>''I'' @ name\<close> when
  \<open>usePrefix\<close> holds and to the name itself otherwise; a name that no named class bears
  (so also a class without a name) has no entry; and two names with the same shape name
  are the same name.
\<close>

theorem symbol_table_total_injective:
  "set (mapKeys (fst (firstPass usePrefix sourceFiles))) = set (seenClassNames sourceFiles)
   \<and> distinct (mapKeys (fst (firstPass usePrefix sourceFiles)))
   \<and> (\<forall>n \<in> set (seenClassNames sourceFiles).
         mapGet (fst (firstPass usePrefix sourceFiles)) n
           = Some (if usePrefix then ''I'' @ n else n))
   \<and> (\<forall>n. n \<notin> set (seenClassNames sourceFiles) \<longrightarrow>
         mapGet (fst (firstPass usePrefix sourceFiles)) n = None)
   \<and> (\<forall>n1 n2 v. mapGet (fst (firstPass usePrefix sourceFiles)) n1 = Some v
         \<and> mapGet (fst (firstPass usePrefix sourceFiles)) n2 = Some v \<longrightarrow> n1 = n2)"
proof -
  let ?m = "fst (firstPass usePrefix sourceFiles)"
  have keys: "set (mapKeys ?m) = set (seenClassNames sourceFiles)"
    by (simp add: mapKeys_def fst_firstPass keys_fold_collectClass seenClassNames_def)
  have dist: "distinct (mapKeys ?m)"
    by (simp add: mapKeys_def fst_firstPass distinct_fold_collectClass)
  have inj: "n1 = n2" if "mapGet ?m n1 = Some v" and "mapGet ?m n2 = Some v" for n1 n2 v
    using that interfaceNameOf_inject [of usePrefix n1 n2]
    by (simp add: mapGet_firstPass split: if_splits)
  have val: "\<forall>n \<in> set (seenClassNames sourceFiles).
               mapGet ?m n = Some (if usePrefix then ''I'' @ n else n)"
    by (simp add: mapGet_firstPass interfaceNameOf_def)
  have none: "\<forall>n. n \<notin> set (seenClassNames sourceFiles) \<longrightarrow> mapGet ?m n = None"
    by (simp add: mapGet_firstPass)
  have inj_all: "\<forall>n1 n2 v. mapGet ?m n1 = Some v \<and> mapGet ?m n2 = Some v \<longrightarrow> n1 = n2"
    using inj by blast
  show ?thesis
    using keys dist val none inj_all by (intro conjI) assumption+
qed

theorem symbol_table_total_injective_witness:
  "''Order'' \<in> set (seenClassNames [ordersFile])
   \<and> mapGet (fst (firstPass True [ordersFile])) ''Order'' = Some ''IOrder''
   \<and> ''Invoice'' \<notin> set (seenClassNames [ordersFile])
   \<and> mapGet (fst (firstPass True [ordersFile])) ''Invoice'' = None
   \<and> set (mapKeys (fst (firstPass True [ordersFile]))) = {''Order'', ''Customer''}
   \<and> mapGet (fst (firstPass False [ordersFile])) ''Order'' = Some ''Order''
   \<and> mapGet (fst (firstPass False [ordersFile])) ''Customer'' = Some ''Customer''
   \<and> mapGet (fst (firstPass False [ordersFile])) ''Invoice'' = None"
proof -
  have names: "seenClassNames [ordersFile] = [''Order'', ''Customer'']"
    by (simp add: seenClassNames_def allClasses_def ordersFile_def orderClass_def
        anonymousClass_def customerClass_def classNameOf_def truthy_def)
  note prefixed = symbol_table_total_injective [of True "[ordersFile]", unfolded names]
  note bare = symbol_table_total_injective [of False "[ordersFile]", unfolded names]
  have keys: "set (mapKeys (fst (firstPass True [ordersFile]))) = {''Order'', ''Customer''}"
    using prefixed [THEN conjunct1] by simp
  have with_prefix:
    "mapGet (fst (firstPass True [ordersFile])) ''Order'' = Some ''IOrder''"
    using prefixed [THEN conjunct2, THEN conjunct2, THEN conjunct1] by simp
  have without_prefix:
    "mapGet (fst (firstPass False [ordersFile])) ''Order'' = Some ''Order''"
    "mapGet (fst (firstPass False [ordersFile])) ''Customer'' = Some ''Customer''"
    using bare [THEN conjunct2, THEN conjunct2, THEN conjunct1] by simp_all
  have absent:
    "mapGet (fst (firstPass True [ordersFile])) ''Invoice'' = None"
    "mapGet (fst (firstPass False [ordersFile])) ''Invoice'' = None"
    using prefixed [THEN conjunct2, THEN conjunct2, THEN conjunct2, THEN conjunct1]
      bare [THEN conjunct2, THEN conjunct2, THEN conjunct2, THEN conjunct1]
    by simp_all
  from keys with_prefix without_prefix absent show ?thesis
    by (simp add: names)
qed

section \<open>Claims about the generated shapes\<close>

lemma values_fold_collectEnum:
  "set (map snd m) \<subseteq> enumStructureOf ` set ds \<Longrightarrow>
   set (map snd (fold collectEnum es m)) \<subseteq> enumStructureOf ` (set ds \<union> set es)"
proof (induction es arbitrary: m ds)
  case Nil
  then show ?case by simp
next
  case (Cons e es)
  have sub: "set (map snd (mapSet k v m)) \<subseteq> insert v (set (map snd m))" for k v
    by (induction m) (force split: if_splits)+
  have "set (map snd (collectEnum e m)) \<subseteq> enumStructureOf ` set (e # ds)"
  proof (cases "truthy (enum_getName e)")
    case True
    then show ?thesis
      using sub [of "enum_getName e" "enumStructureOf e"] Cons.prems
      by (auto simp: collectEnum_truthy)
  next
    case False
    then show ?thesis using Cons.prems by (auto simp: collectEnum_falsy)
  qed
  from Cons.IH [OF this] show ?case by auto
qed

lemma count_list_distinct: "distinct xs \<Longrightarrow> x \<in> set xs \<Longrightarrow> count_list xs x = 1"
  by (induction xs) (auto simp: count_list_0_iff)

text \<open>
  Claim C5. Every class with a name yields exactly two interfaces, one after the other: the
  first is named by the shape name and holds the signatures of the properties without a
  relation decorator, the second is named by the shape name followed by \<open>Data\<close> and holds
  the signatures of all properties. Both keep the order of declaration, and a signature
  keeps the name and the question token of its property. A class without a name yields
  nothing.
\<close>

theorem shapes_per_class:
  "allInterfacesOf usePrefix sourceFiles =
     concat (map (\<lambda>c. case classNameOf c of
                         None \<Rightarrow> []
                       | Some className \<Rightarrow>
                           [\<lparr> if_kind = Interface,
                              if_name = Some (interfaceNameOf usePrefix className),
                              if_properties =
                                map (propertySignatureOf (fst (firstPass usePrefix sourceFiles))
                                       (snd (firstPass usePrefix sourceFiles)))
                                    (filter (\<lambda>p. \<not> hasRelation p) (class_getProperties c)),
                              if_isExported = True \<rparr>,
                            \<lparr> if_kind = Interface,
                              if_name = Some (interfaceNameOf usePrefix className @ ''Data''),
                              if_properties =
                                map (propertySignatureOf (fst (firstPass usePrefix sourceFiles))
                                       (snd (firstPass usePrefix sourceFiles)))
                                    (class_getProperties c),
                              if_isExported = True \<rparr>])
                 (allClasses sourceFiles))
   \<and> ps_name (propertySignatureOf interfaceMap enumMap p) = prop_getName p
   \<and> ps_hasQuestionToken (propertySignatureOf interfaceMap enumMap p) = prop_hasQuestionToken p"
  using allInterfacesOf_classes [of usePrefix sourceFiles]
  by (simp add: propertySignatureOf_def)

theorem shapes_per_class_witness:
  "map (\<lambda>s. (if_name s, map (\<lambda>q. (ps_name q, ps_type q, ps_hasQuestionToken q)) (if_properties s)))
       (allInterfacesOf True [usersFile]) =
     [(Some ''IUser'', [(''id'', ''number'', False)]),
      (Some ''IUserData'', [(''id'', ''number'', False), (''profile'', ''IProfileData'', False)]),
      (Some ''IProfile'', []),
      (Some ''IProfileData'', [])]"
  using shapes_per_class [of True "[usersFile]"]
  by (simp add: firstPass_def firstPassFile_def collectClass_def
      allClasses_def usersFile_def userClass_def profileClass_def profileProperty_def
      classNameOf_def truthy_def interfaceNameOf_def propertySignatureOf_def propertyType_def
      hasRelation_def relationDecorators_def property_def primitiveType_def classType_def
      enumPropType_def relationType_def eagerRelationType_def elementTypeOf_def
      symbolNameOf_def relatedInterfaceNameOf_def mapGet_def)


text \<open>
  Claim C7. The statements of the generated file are the enums followed by the interfaces.
  The enums stand in the order in which their names were first seen over all files (the
  list of names with every repetition of an earlier name dropped), and each is the structure
  of a declared enum. The interfaces stand in the order of the files and of the classes in
  a file, the plain interface of a class directly before its \<open>Data\<close> interface.
\<close>

theorem output_order:
  "statementsOf usePrefix sourceFiles =
     map EnumStatement (allEnumsOf usePrefix sourceFiles)
       @ map InterfaceStatement (allInterfacesOf usePrefix sourceFiles)
   \<and> map en_name (allEnumsOf usePrefix sourceFiles) =
       rev (remdups (rev (filter truthy (map enum_getName (allEnumDecls sourceFiles)))))
   \<and> set (allEnumsOf usePrefix sourceFiles) \<subseteq> enumStructureOf ` set (allEnumDecls sourceFiles)
   \<and> map if_name (allInterfacesOf usePrefix sourceFiles) =
       concat (map (\<lambda>className. [Some (interfaceNameOf usePrefix className),
                                  Some (interfaceNameOf usePrefix className @ ''Data'')])
                   (seenClassNames sourceFiles))"
proof -
  have "set (allEnumsOf usePrefix sourceFiles) \<subseteq> enumStructureOf ` set (allEnumDecls sourceFiles)"
    using values_fold_collectEnum [of "[]" "[]" "allEnumDecls sourceFiles"]
    by (simp add: allEnumsOf_def mapValues_def snd_firstPass)
  then show ?thesis
    by (simp add: statementsOf_def enum_names interface_names)
qed

theorem output_order_witness:
  "map en_name (allEnumsOf True [usersFile, teamsFile]) = [''Status'', ''Role'']
   \<and> map if_name (allInterfacesOf True [usersFile, teamsFile]) =
       [Some ''IUser'', Some ''IUserData'', Some ''IProfile'', Some ''IProfileData'',
        Some ''ITeam'', Some ''ITeamData'', Some ''IEmployee'', Some ''IEmployeeData'']"
proof -
  have enums: "map enum_getName (allEnumDecls [usersFile, teamsFile]) = [''Status'', ''Role'', ''Status'']"
    by (simp add: allEnumDecls_def usersFile_def teamsFile_def statusEnum_def roleEnum_def
        otherStatusEnum_def)
  have names: "seenClassNames [usersFile, teamsFile] = [''User'', ''Profile'', ''Team'', ''Employee'']"
    by (simp add: seenClassNames_def allClasses_def usersFile_def teamsFile_def userClass_def
        profileClass_def teamClass_def employeeClass_def classNameOf_def truthy_def)
  show ?thesis
    using output_order [of True "[usersFile, teamsFile]"]
    by (simp add: enums names truthy_def interfaceNameOf_def)
qed

text \<open>
  Claim C10. When a name is borne by two or more classes, the symbol table holds one entry
  for it, with the shape name computed from it, while the output holds at least two
  interfaces with that shape name and at least two with that shape name followed by
  \<open>Data\<close>: nothing is merged and nothing fails.
\<close>

theorem duplicate_class_names:
  assumes "2 \<le> count_list (seenClassNames sourceFiles) className"
  shows "count_list (mapKeys (fst (firstPass usePrefix sourceFiles))) className = 1
   \<and> mapGet (fst (firstPass usePrefix sourceFiles)) className
       = Some (interfaceNameOf usePrefix className)
   \<and> 2 \<le> count_list (map if_name (allInterfacesOf usePrefix sourceFiles))
              (Some (interfaceNameOf usePrefix className))
   \<and> 2 \<le> count_list (map if_name (allInterfacesOf usePrefix sourceFiles))
              (Some (interfaceNameOf usePrefix className @ ''Data''))"
proof -
  let ?m = "fst (firstPass usePrefix sourceFiles)"
  from assms have seen: "className \<in> set (seenClassNames sourceFiles)"
    by (metis count_list_0_iff not_numeral_le_zero)
  have "set (mapKeys ?m) = set (seenClassNames sourceFiles)"
    by (simp add: mapKeys_def fst_firstPass keys_fold_collectClass seenClassNames_def)
  moreover have "distinct (mapKeys ?m)"
    by (simp add: mapKeys_def fst_firstPass distinct_fold_collectClass)
  ultimately have one: "count_list (mapKeys ?m) className = 1"
    using seen by (simp add: count_list_distinct)
  have get: "mapGet ?m className = Some (interfaceNameOf usePrefix className)"
    using seen by (simp add: mapGet_firstPass)
  have plain: "2 \<le> count_list (map if_name (allInterfacesOf usePrefix sourceFiles))
                     (Some (interfaceNameOf usePrefix className))"
    unfolding interface_names
    using assms count_interface_names [of "seenClassNames sourceFiles" className usePrefix]
    by linarith
  have full: "2 \<le> count_list (map if_name (allInterfacesOf usePrefix sourceFiles))
                    (Some (interfaceNameOf usePrefix className @ ''Data''))"
    unfolding interface_names
    using assms count_interface_data_names [of "seenClassNames sourceFiles" className usePrefix]
    by linarith
  from one get plain full show ?thesis by simp
qed

theorem duplicate_class_names_witness:
  "2 \<le> count_list (seenClassNames [ordersFile, archiveFile]) ''Order''
   \<and> count_list (mapKeys (fst (firstPass True [ordersFile, archiveFile]))) ''Order'' = 1
   \<and> 2 \<le> count_list (map if_name (allInterfacesOf True [ordersFile, archiveFile])) (Some ''IOrder'')
   \<and> 2 \<le> count_list (map if_name (allInterfacesOf True [ordersFile, archiveFile]))
              (Some ''IOrderData'')"
proof -
  have names: "seenClassNames [ordersFile, archiveFile] = [''Order'', ''Customer'', ''Order'']"
    by (simp add: seenClassNames_def allClasses_def ordersFile_def archiveFile_def orderClass_def
        anonymousClass_def customerClass_def archivedOrderClass_def classNameOf_def truthy_def)
  have two: "2 \<le> count_list (seenClassNames [ordersFile, archiveFile]) ''Order''"
    by (simp add: names)
  from two duplicate_class_names [OF two, of True] show ?thesis
    by (simp add: interfaceNameOf_def)
qed

section \<open>The rewritten types\<close>

lemma seen_truthy: "n \<in> set (seenClassNames sfs) \<Longrightarrow> n \<noteq> []"
  by (auto simp: seenClassNames_def List.map_filter_def classNameOf_def truthy_def
           split: option.splits if_splits)

lemma relatedInterfaceNameOf_firstPass:
  "relatedInterfaceNameOf (fst (firstPass up sfs)) n =
     (if n \<in> set (seenClassNames sfs) then interfaceNameOf up n else n)"
  using seen_truthy [of n sfs]
  by (simp add: relatedInterfaceNameOf_def mapGet_firstPass truthy_def interfaceNameOf_def)


lemma propertyType_eager:
  assumes "hasRelation p" and "\<not> isLazy p"
  shows "propertyType im em p =
     (case symbolNameOf (elementTypeOf (prop_getType p)) of
        None \<Rightarrow> ''any''
      | Some n \<Rightarrow> if n = [] then ''any''
                  else if isArray (prop_getType p)
                       then relatedInterfaceNameOf im n @ ''Data[]''
                       else relatedInterfaceNameOf im n @ ''Data'')"
  using assms
  by (simp add: propertyType_def relationType_def isLazy_def eagerRelationType_def truthy_def
           split: option.splits)


section \<open>Claims about the rewritten types\<close>

text \<open>
  Claim C9, as amended. For a property without a relation decorator the same signature goes
  to the plain and to the \<open>Data\<close> interface. Its type is the text the compiler prints for
  the type of the property, whatever the type node reads in the source, unless a
  declaration of the type's symbol is an enum declaration: then it is the name of that
  symbol.
\<close>

theorem plain_property_type:
  assumes "\<not> hasRelation p"
  shows "pushProperty interfaceMap enumMap p (interfaceProperties, interfaceDataProperties) =
           (interfaceProperties @ [propertySignatureOf interfaceMap enumMap p],
            interfaceDataProperties @ [propertySignatureOf interfaceMap enumMap p])
   \<and> (getSymbol (prop_getType p) = None \<longrightarrow>
        ps_type (propertySignatureOf interfaceMap enumMap p) = getText (prop_getType p))
   \<and> (\<forall>typeSymbol. getSymbol (prop_getType p) = Some typeSymbol
          \<and> ''EnumDeclaration'' \<notin> set (sym_declKinds typeSymbol) \<longrightarrow>
        ps_type (propertySignatureOf interfaceMap enumMap p) = getText (prop_getType p))
   \<and> (\<forall>typeSymbol. getSymbol (prop_getType p) = Some typeSymbol
          \<and> ''EnumDeclaration'' \<in> set (sym_declKinds typeSymbol) \<longrightarrow>
        ps_type (propertySignatureOf interfaceMap enumMap p) = sym_getName typeSymbol)
   \<and> (\<forall>propTypeNode.
        ps_type (propertySignatureOf interfaceMap enumMap (p\<lparr>prop_getTypeNode := propTypeNode\<rparr>))
          = ps_type (propertySignatureOf interfaceMap enumMap p))"
proof -
  have push: "pushProperty interfaceMap enumMap p (interfaceProperties, interfaceDataProperties) =
           (interfaceProperties @ [propertySignatureOf interfaceMap enumMap p],
            interfaceDataProperties @ [propertySignatureOf interfaceMap enumMap p])"
    using assms by (simp add: pushProperty_def Let_def)
  have plain: "ps_type (propertySignatureOf interfaceMap enumMap q) = enumPropType enumMap q"
    if "\<not> hasRelation q" for q
    using that by (simp add: propertySignatureOf_def propertyType_def)
  have node: "\<not> hasRelation (p\<lparr>prop_getTypeNode := n\<rparr>)" for n
    using assms by (simp add: hasRelation_def)
  have same: "enumPropType enumMap (p\<lparr>prop_getTypeNode := n\<rparr>) = enumPropType enumMap p" for n
    by (simp add: enumPropType_def split: option.splits)
  have none: "enumPropType enumMap p = getText (prop_getType p)"
    if "getSymbol (prop_getType p) = None"
    using that by (simp add: enumPropType_def)
  have other: "enumPropType enumMap p = getText (prop_getType p)"
    if "getSymbol (prop_getType p) = Some typeSymbol"
      "''EnumDeclaration'' \<notin> set (sym_declKinds typeSymbol)" for typeSymbol
    using that by (simp add: enumPropType_def list_ex_iff)
  have enum: "enumPropType enumMap p = sym_getName typeSymbol"
    if "getSymbol (prop_getType p) = Some typeSymbol"
      "''EnumDeclaration'' \<in> set (sym_declKinds typeSymbol)" for typeSymbol
    using that by (simp add: enumPropType_def list_ex_iff)
  from push none other enum show ?thesis
    by (simp add: plain [OF assms] plain [OF node] same)
qed

theorem plain_property_type_witness:
  "\<not> hasRelation statusProperty
   \<and> ps_type (propertySignatureOf [] [] statusProperty) = ''Status''
   \<and> \<not> hasRelation (property [] ''id'' (primitiveType ''number''))
   \<and> ps_type (propertySignatureOf [] [] (property [] ''id'' (primitiveType ''number'')))
       = ''number''
   \<and> \<not> hasRelation ownerProperty
   \<and> ps_type (propertySignatureOf [] [] ownerProperty) = ''import(\"/src/user\").User''
   \<and> ps_type (propertySignatureOf [] [] (ownerProperty\<lparr>prop_getTypeNode := None\<rparr>))
       = ''import(\"/src/user\").User''"
proof -
  let ?id = "property [] ''id'' (primitiveType ''number'')"
  have a: "\<not> hasRelation statusProperty"
    by (simp add: statusProperty_def propertyAs_def hasRelation_def relationDecorators_def)
  have b: "\<not> hasRelation ?id"
    by (simp add: property_def hasRelation_def relationDecorators_def)
  have c: "\<not> hasRelation ownerProperty"
    by (simp add: ownerProperty_def propertyAs_def hasRelation_def relationDecorators_def)
  have status_symbol:
    "getSymbol (prop_getType statusProperty)
       = Some \<lparr> sym_getName = ''Status'', sym_declKinds = [''EnumDeclaration''] \<rparr>"
    by (simp add: statusProperty_def propertyAs_def importedEnumType_def)
  have id_type: "getSymbol (prop_getType ?id) = None" "getText (prop_getType ?id) = ''number''"
    by (simp_all add: property_def primitiveType_def)
  have owner_type:
    "getSymbol (prop_getType ownerProperty)
       = Some \<lparr> sym_getName = ''User'', sym_declKinds = [''ClassDeclaration''] \<rparr>"
    "getText (prop_getType ownerProperty) = ''import(\"/src/user\").User''"
    by (simp_all add: ownerProperty_def propertyAs_def moduleClassType_def)
  have status: "ps_type (propertySignatureOf [] [] statusProperty) = ''Status''"
    using plain_property_type [OF a, of "[]" "[]" "[]" "[]"] by (simp add: status_symbol)
  have ident: "ps_type (propertySignatureOf [] [] ?id) = ''number''"
    using plain_property_type [OF b, of "[]" "[]" "[]" "[]"] by (simp add: id_type)
  have owner: "ps_type (propertySignatureOf [] [] ownerProperty) = ''import(\"/src/user\").User''"
    using plain_property_type [OF c, of "[]" "[]" "[]" "[]"] by (simp add: owner_type)
  have bare: "ps_type (propertySignatureOf [] [] (ownerProperty\<lparr>prop_getTypeNode := None\<rparr>))
                = ps_type (propertySignatureOf [] [] ownerProperty)"
    using plain_property_type [OF c, of "[]" "[]" "[]" "[]"] by blast
  from a b c status ident owner bare show ?thesis by simp
qed

text \<open>
  Claim C9 as stated fails on \<open>class Ticket\<close>. The property \<open>owner\<close> is declared as
  \<open>User\<close> and generated with the module of the class before the name. The property
  \<open>status\<close> is declared as \<open>enums.Status\<close> and generated as \<open>Status\<close>, which is
  neither the declared text nor the text the compiler prints for the type.
\<close>

theorem declared_text_counterexample:
  "\<not> hasRelation qualifiedStatusProperty
   \<and> \<not> hasRelation ownerProperty
   \<and> map (\<lambda>p. map_option node_getText (prop_getTypeNode p)) (class_getProperties ticketClass)
       = [Some ''enums.Status'', Some ''User'']
   \<and> map (\<lambda>p. getText (prop_getType p)) (class_getProperties ticketClass)
       = [''import(\"/src/enums\").Status'', ''import(\"/src/user\").User'']
   \<and> map (\<lambda>s. map ps_type (if_properties s)) (allInterfacesOf True [ticketsFile])
       = [[''Status'', ''import(\"/src/user\").User''],
          [''Status'', ''import(\"/src/user\").User'']]"
  by (simp add: qualifiedStatusProperty_def ownerProperty_def propertyAs_def
      importedEnumType_def moduleClassType_def ticketClass_def ticketsFile_def
      firstPass_def firstPassFile_def collectClass_def truthy_def interfaceNameOf_def
      mapGet_def hasRelation_def relationDecorators_def allInterfacesOf_def secondPass_def
      classInterfaces_def pushProperty_def propertySignatureOf_def propertyType_def
      enumPropType_def mapHas_def templateStr_def Let_def)




text \<open>
  Claim C4, as amended. For a relation property of array type whose type node does not
  contain \<open>Promise\<close>, the generated type is shape name\<open>Data[]\<close> when the element type names
  a class of the symbol table, and name\<open>Data[]\<close> with the element's own name when that name
  is not in the table: a collection in both cases. When the element type has no symbol
  name, the generated type is the bare \<open>any\<close>.
\<close>

theorem eager_collection_type:
  assumes "hasRelation p" and "\<not> isLazy p" and "isArray (prop_getType p)"
  shows "(\<forall>n. symbolNameOf (elementTypeOf (prop_getType p)) = Some n
              \<and> n \<in> set (seenClassNames sourceFiles) \<longrightarrow>
            propertyType (fst (firstPass usePrefix sourceFiles)) enumMap p
              = interfaceNameOf usePrefix n @ ''Data[]'')
   \<and> (\<forall>n. symbolNameOf (elementTypeOf (prop_getType p)) = Some n
              \<and> n \<noteq> [] \<and> n \<notin> set (seenClassNames sourceFiles) \<longrightarrow>
            propertyType (fst (firstPass usePrefix sourceFiles)) enumMap p = n @ ''Data[]'')
   \<and> (symbolNameOf (elementTypeOf (prop_getType p)) = None
        \<or> symbolNameOf (elementTypeOf (prop_getType p)) = Some [] \<longrightarrow>
            propertyType (fst (firstPass usePrefix sourceFiles)) enumMap p = ''any'')"
  using seen_truthy [of _ sourceFiles] assms(3)
  by (auto simp: propertyType_eager [OF assms(1,2)] relatedInterfaceNameOf_firstPass)

theorem eager_collection_type_witness:
  "propertyType (fst (firstPass True [teamsFile])) [] membersProperty = ''IEmployeeData[]''
   \<and> propertyType (fst (firstPass True [teamOnlyFile])) [] membersProperty = ''EmployeeData[]''
   \<and> propertyType (fst (firstPass True [teamsFile])) [] unresolvedMembersProperty = ''any''"
proof -
  have rel: "hasRelation membersProperty" "hasRelation unresolvedMembersProperty"
    by (simp_all add: membersProperty_def unresolvedMembersProperty_def property_def propertyAs_def
        arrayType_def classType_def primitiveType_def teamsFile_def teamOnlyFile_def
        teamClass_def employeeClass_def hasRelation_def relationDecorators_def isLazy_def symbolNameOf_def
        elementTypeOf_def)
  have eager: "\<not> isLazy membersProperty" "\<not> isLazy unresolvedMembersProperty"
    by (simp_all add: membersProperty_def unresolvedMembersProperty_def property_def propertyAs_def
        arrayType_def classType_def primitiveType_def teamsFile_def teamOnlyFile_def
        teamClass_def employeeClass_def hasRelation_def relationDecorators_def isLazy_def symbolNameOf_def
        elementTypeOf_def)
  have arr: "isArray (prop_getType membersProperty)"
    "isArray (prop_getType unresolvedMembersProperty)"
    by (simp_all add: membersProperty_def unresolvedMembersProperty_def property_def propertyAs_def
        arrayType_def classType_def primitiveType_def teamsFile_def teamOnlyFile_def
        teamClass_def employeeClass_def)
  have el: "symbolNameOf (elementTypeOf (prop_getType membersProperty)) = Some ''Employee''"
    "symbolNameOf (elementTypeOf (prop_getType unresolvedMembersProperty)) = None"
    by (simp_all add: membersProperty_def unresolvedMembersProperty_def property_def propertyAs_def
        arrayType_def classType_def primitiveType_def teamsFile_def teamOnlyFile_def
        teamClass_def employeeClass_def hasRelation_def relationDecorators_def isLazy_def symbolNameOf_def
        elementTypeOf_def)
  have seen: "seenClassNames [teamsFile] = [''Team'', ''Employee'']"
    "seenClassNames [teamOnlyFile] = [''Team'']"
    by (simp_all add: membersProperty_def unresolvedMembersProperty_def property_def propertyAs_def
        arrayType_def classType_def primitiveType_def teamsFile_def teamOnlyFile_def
        teamClass_def employeeClass_def seenClassNames_def allClasses_def classNameOf_def truthy_def)
  from eager_collection_type [OF rel(1) eager(1) arr(1), of "[teamsFile]" True "[]"]
    eager_collection_type [OF rel(1) eager(1) arr(1), of "[teamOnlyFile]" True "[]"]
    eager_collection_type [OF rel(2) eager(2) arr(2), of "[teamsFile]" True "[]"]
  show ?thesis
    by (simp add: el seen interfaceNameOf_def)
qed

text \<open>
  Claim C4 as stated fails for an array whose element type has no symbol: the generated
  type is \<open>any\<close>, with no collection wrapper around it.
\<close>

theorem unresolved_collection_counterexample:
  "hasRelation unresolvedMembersProperty
   \<and> \<not> isLazy unresolvedMembersProperty
   \<and> isArray (prop_getType unresolvedMembersProperty)
   \<and> propertyType (fst (firstPass True [teamsFile])) (snd (firstPass True [teamsFile]))
        unresolvedMembersProperty = ''any''"
  by (simp add: unresolvedMembersProperty_def propertyAs_def arrayType_def primitiveType_def
      teamsFile_def teamClass_def employeeClass_def firstPass_def firstPassFile_def collectClass_def truthy_def interfaceNameOf_def mapGet_def hasRelation_def relationDecorators_def isLazy_def symbolNameOf_def
      elementTypeOf_def propertyType_def relationType_def
      eagerRelationType_def relatedInterfaceNameOf_def)






section \<open>Claims about the imports of the file-per-class generator\<close>

text \<open>
  Claim C2, evaluated on the program. With the prefix on, the file generated for
  \<open>Order\<close> has a property of type \<open>Promise<ICustomer>\<close>, the pattern finds the clean
  name \<open>ICustomer\<close> in it, and \<open>ICustomer\<close> is a shape name of the symbol table; yet the
  imports computed for the file are empty, because \<open>interfaceMap.has\<close> looks the name up
  among the class names. Without the prefix the same classes give the import \<open>Customer\<close>.
\<close>

theorem prefixed_imports_missing:
  "map (\<lambda>f. (if_name (gf_interface f), map ps_type (if_properties (gf_interface f)), gf_imports f))
       (generatedFilesOf True [ordersFile])
     = [(Some ''IOrder'', [''Promise<ICustomer>''], []), (Some ''ICustomer'', [], [])]
   \<and> mapValues (firstPassClasses True [ordersFile]) = [''IOrder'', ''ICustomer'']
   \<and> map cleanTypeOf (matchTypeNames 0 ''Promise<ICustomer>'') = [''ICustomer'']
   \<and> map gf_imports (generatedFilesOf False [ordersFile]) = [[''Customer''], []]"
  by code_simp

section \<open>Claims about the run\<close>

text \<open>
  Claim C8. When the input pattern matches no file, the run reports the error
  \<open>No files matched the input pattern\<close> and exits with code 1; it saves no file.
\<close>

theorem no_input_aborts:
  assumes "addSourceFilesAtPaths env (path_resolve env (opt_input opts)) = []"
  shows "out_exitCode (runGenerator env opts) = 1
   \<and> \<not> list_ex isSaveSync (out_effects (runGenerator env opts))
   \<and> last (out_effects (runGenerator env opts)) =
       ConsoleError (''No files matched the input pattern: '' @ path_resolve env (opt_input opts))"
  using assms by (simp add: runGenerator_def Let_def isSaveSync_def)

theorem no_input_aborts_witness:
  "addSourceFilesAtPaths emptyEnvironment (path_resolve emptyEnvironment (opt_input defaultOptions)) = []
   \<and> out_exitCode (runGenerator emptyEnvironment defaultOptions) = 1
   \<and> out_effects (runGenerator emptyEnvironment defaultOptions) =
       [MkdirSync ''/work/out'',
        ConsoleError ''No files matched the input pattern: /work/entities/*.ts'']"
proof -
  have none: "addSourceFilesAtPaths emptyEnvironment
                (path_resolve emptyEnvironment (opt_input defaultOptions)) = []"
    by (simp add: emptyEnvironment_def)
  from none no_input_aborts [OF none] show ?thesis
    by (simp add: runGenerator_def Let_def emptyEnvironment_def defaultOptions_def endsWith_def)
qed

end
